theory Spec2Isabelle
  imports Complex_Main
begin

section \<open>Python values, exceptions and string helpers\<close>

text \<open>
  Exceptions are values. \<open>exn\<close> lists the exception classes the modelled functions raise or
  receive from their collaborators; \<open>OtherException\<close> stands for any further subclass of
  Python's \<open>Exception\<close> (an \<open>OSError\<close> of the process spawner, a connection error of the
  key-value store, a pydantic \<open>ValidationError\<close>). The string is the exception's message.
\<close>

datatype exn =
    RuntimeError string
  | ValueError string
  | HyperglassError string
  | OtherException string

text \<open>\<open>str(e)\<close>, as the f-strings of the source format an exception.\<close>

fun exn_str :: "exn \<Rightarrow> string" where
  "exn_str (RuntimeError m) = m"
| "exn_str (ValueError m) = m"
| "exn_str (HyperglassError m) = m"
| "exn_str (OtherException m) = m"

text \<open>litestar's \<open>HTTPException(status_code=..., detail=...)\<close>.\<close>

datatype http_error = HTTPException nat string

fun status_code :: "http_error \<Rightarrow> nat" where
  "status_code (HTTPException c d) = c"

fun detail :: "http_error \<Rightarrow> string" where
  "detail (HTTPException c d) = d"

text \<open>\<open>str(n)\<close> for an integer: decimal digits, a leading minus sign when negative.\<close>

definition digit_char :: "nat \<Rightarrow> char" where
  "digit_char d = char_of (48 + d)"

fun str_nat :: "nat \<Rightarrow> string" where
  "str_nat n = (if n < 10 then [digit_char n] else str_nat (n div 10) @ [digit_char (n mod 10)])"

declare str_nat.simps [simp del]

definition str_int :: "int \<Rightarrow> string" where
  "str_int i = (if i < 0 then CHR ''-'' # str_nat (nat (- i)) else str_nat (nat i))"

text \<open>\<open>s.endswith(suffix)\<close>, \<open>s.startswith(prefix)\<close> and the slice \<open>s[:-k]\<close> (for \<open>k > 0\<close>).\<close>

definition endswith :: "string \<Rightarrow> string \<Rightarrow> bool" where
  "endswith s suf = (length suf \<le> length s \<and> drop (length s - length suf) s = suf)"

definition startswith :: "string \<Rightarrow> string \<Rightarrow> bool" where
  "startswith s pre = (take (length pre) s = pre)"

definition drop_last :: "nat \<Rightarrow> string \<Rightarrow> string" where
  "drop_last k s = take (length s - k) s"

section \<open>network\_tools.py: the iperf3 session manager\<close>

text \<open>
  A helper process as the manager sees it through the process supervisor
  (\<open>terminate\<close>, \<open>wait\<close> with a timeout, \<open>kill\<close>). \<open>exit_delay\<close> is the behaviour of
  the operating-system process, which the manager does not control: the time in milliseconds
  after the graceful signal at which the process exits by itself, \<open>None\<close> when it never
  does. Sending a signal is the supervisor operation of the specification: it delivers the
  signal and does not fail. What the \<open>asyncio\<close> library does for a handle whose process
  was already reaped is outside this model.
\<close>

record process =
  pid :: nat
  exit_delay :: "nat option"

text \<open>What the manager does to a process, in order.\<close>

datatype proc_event =
    Terminate nat
  | Waited nat nat
  | Kill nat

text \<open>
  \<open>asyncio.wait_for(process.wait(), timeout)\<close>: the process's exit within the timeout, or
  \<open>asyncio.TimeoutError\<close>. Times are in milliseconds.
\<close>

datatype wait_result = Exited nat | TimeoutError

definition wait_for :: "process \<Rightarrow> nat \<Rightarrow> wait_result" where
  "wait_for p timeout =
     (case exit_delay p of
        None \<Rightarrow> TimeoutError
      | Some d \<Rightarrow> if d < timeout then Exited d else TimeoutError)"

text \<open>\<open>IPerf3Server\<close>: the port-to-process dictionary and the port range of \<open>__init__\<close>.\<close>

record iperf3_server =
  processes :: "int \<rightharpoonup> process"
  port_range :: "int \<times> int"

definition IPerf3Server_init :: iperf3_server where
  "IPerf3Server_init = \<lparr>processes = Map.empty, port_range = (30000, 31000)\<rparr>"

text \<open>
  The environment of the manager: \<open>entropy i\<close> is the random number behind the \<open>i\<close>-th call
  of \<open>random.randint\<close>, \<open>bind_ok i port\<close> says whether the probing \<open>bind\<close> of the \<open>i\<close>-th
  attempt succeeds on \<open>port\<close>, and \<open>spawn argv\<close> is
  \<open>asyncio.create_subprocess_exec(*argv)\<close>: the new process, or the exception it raises.
\<close>

record net_env =
  entropy :: "nat \<Rightarrow> nat"
  bind_ok :: "nat \<Rightarrow> int \<Rightarrow> bool"
  spawn :: "string list \<Rightarrow> exn + process"

text \<open>
  \<open>random.randint(a, b)\<close> for \<open>a \<le> b\<close>: an integer of \<open>[a, b]\<close>, both ends included,
  chosen by the random number \<open>e\<close>.
\<close>

definition randint :: "int \<times> int \<Rightarrow> nat \<Rightarrow> int" where
  "randint r e = (case r of (a, b) \<Rightarrow> a + int e mod (b - a + 1))"

text \<open>
  The loop of \<open>get_available_port\<close>: \<open>n\<close> iterations are left, \<open>i\<close> attempts were made. The
  result comes with the ports probed, in order.
\<close>

fun probe_ports :: "net_env \<Rightarrow> int \<times> int \<Rightarrow> nat \<Rightarrow> nat \<Rightarrow> (exn + int) \<times> int list" where
  "probe_ports env r 0 i = (Inl (RuntimeError ''No available ports in range''), [])"
| "probe_ports env r (Suc n) i =
     (let port = randint r (entropy env i) in
      if bind_ok env i port then (Inr port, [port])
      else (case probe_ports env r n (Suc i) of (res, probed) \<Rightarrow> (res, port # probed)))"

definition get_available_port :: "net_env \<Rightarrow> iperf3_server \<Rightarrow> (exn + int) \<times> int list" where
  "get_available_port env self = probe_ports env (port_range self) 100 0"

record start_response =
  sr_port :: int
  sr_status :: string
  sr_duration :: int
  sr_ipv4 :: string
  sr_ipv6 :: string

text \<open>
  \<open>start_server\<close>: every exception of the body, from the port allocation or from the spawn,
  is caught by the same handler and raised again as an HTTP 500.
\<close>

definition start_server ::
  "net_env \<Rightarrow> int \<Rightarrow> iperf3_server \<Rightarrow> (http_error + start_response) \<times> iperf3_server" where
  "start_server env duration self =
     (case fst (get_available_port env self) of
        Inl e \<Rightarrow>
          (Inl (HTTPException 500 (''Failed to start iperf3 server: '' @ exn_str e)), self)
      | Inr port \<Rightarrow>
          (case spawn env [''iperf3'', ''-s'', ''-p'', str_int port, ''-1'', ''--json''] of
             Inl e \<Rightarrow>
               (Inl (HTTPException 500 (''Failed to start iperf3 server: '' @ exn_str e)), self)
           | Inr proc \<Rightarrow>
               (Inr \<lparr>sr_port = port, sr_status = ''started'', sr_duration = duration,
                     sr_ipv4 = ''iperf3 -c <server_ip> -p '' @ str_int port,
                     sr_ipv6 = ''iperf3 -c <server_ipv6> -p '' @ str_int port\<rparr>,
                self\<lparr>processes := (processes self)(port \<mapsto> proc)\<rparr>)))"

text \<open>
  \<open>stop_server\<close>: the result, the manager afterwards, and what was done to the process.
  The timeout of 5.0 seconds is 5000 milliseconds.
\<close>

definition stop_server :: "int \<Rightarrow> iperf3_server \<Rightarrow> bool \<times> iperf3_server \<times> proc_event list" where
  "stop_server port self =
     (case processes self port of
        Some proc \<Rightarrow>
          (True,
           self\<lparr>processes := (processes self)(port := None)\<rparr>,
           Terminate (pid proc) #
             (case wait_for proc 5000 of
                Exited d \<Rightarrow> [Waited (pid proc) d]
              | TimeoutError \<Rightarrow> [Waited (pid proc) 5000, Kill (pid proc)]))
      | None \<Rightarrow> (False, self, []))"

text \<open>
  Two concrete environments: one where every probing bind fails, one where the first bind
  succeeds and the spawn raises (the \<open>iperf3\<close> binary is missing).
\<close>

definition env_exhausted :: net_env where
  "env_exhausted = \<lparr>entropy = (\<lambda>i. 17 * i), bind_ok = (\<lambda>i port. False),
     spawn = (\<lambda>argv. Inr \<lparr>pid = 1, exit_delay = None\<rparr>)\<rparr>"

definition env_spawn_fails :: net_env where
  "env_spawn_fails = \<lparr>entropy = (\<lambda>i. 17 * i), bind_ok = (\<lambda>i port. True),
     spawn = (\<lambda>argv. Inl (OtherException ''[Errno 2] No such file or directory''))\<rparr>"

section \<open>bandwidth.py: the bandwidth monitor\<close>

text \<open>
  The fields of psutil's per-interface counters that \<open>_collect_stats\<close> reads.
\<close>

record counters =
  c_bytes_sent :: int
  c_bytes_recv :: int
  c_packets_sent :: int
  c_packets_recv :: int

text \<open>
  The dictionary \<open>current_stats\<close>. Python computes the rates in floating point from the
  integer counters and the float clock; the model computes them in the reals.
\<close>

record sample =
  timestamp :: real
  bytes_sent :: int
  bytes_recv :: int
  packets_sent :: int
  packets_recv :: int
  send_rate :: real
  recv_rate :: real
  send_packets_rate :: real
  recv_packets_rate :: real

text \<open>
  \<open>BandwidthMonitor\<close>. \<open>interface_stats\<close> is a \<open>defaultdict\<close> of deques with
  \<open>maxlen=60\<close>: an interface without a key reads as the empty deque. \<open>monitor_task\<close> is
  the handle of the task running \<open>_monitor_loop\<close>.
\<close>

record bandwidth_monitor =
  interface_stats :: "string \<rightharpoonup> sample list"
  last_stats :: "string \<rightharpoonup> sample"
  monitoring :: bool
  monitor_task :: "nat option"

definition BandwidthMonitor_init :: bandwidth_monitor where
  "BandwidthMonitor_init =
     \<lparr>interface_stats = Map.empty, last_stats = Map.empty, monitoring = False,
      monitor_task = None\<rparr>"

text \<open>
  \<open>deque.append\<close> on a deque with a \<open>maxlen\<close>: the element is added on the right and, when
  the deque then holds more than \<open>maxlen\<close> elements, the leftmost one is dropped.
\<close>

definition deque_append :: "nat \<Rightarrow> 'a list \<Rightarrow> 'a \<Rightarrow> 'a list" where
  "deque_append maxlen d x = (let d' = d @ [x] in if length d' > maxlen then tl d' else d')"

text \<open>Reading \<open>self.interface_stats[interface]\<close>: the deque, a new empty one without a key.\<close>

definition history :: "bandwidth_monitor \<Rightarrow> string \<Rightarrow> sample list" where
  "history self interface = (case interface_stats self interface of None \<Rightarrow> [] | Some d \<Rightarrow> d)"

text \<open>What the monitor asks of the scheduler and the log.\<close>

datatype monitor_effect = CreateTask nat | CancelTask nat | LogInfo string

text \<open>
  \<open>start_monitoring\<close>; \<open>new_task\<close> is the handle \<open>asyncio.create_task\<close> returns when it
  is called.
\<close>

definition start_monitoring ::
  "nat \<Rightarrow> bandwidth_monitor \<Rightarrow> bandwidth_monitor \<times> monitor_effect list" where
  "start_monitoring new_task self =
     (if monitoring self then (self, [])
      else (self\<lparr>monitoring := True, monitor_task := Some new_task\<rparr>,
            [CreateTask new_task, LogInfo ''Started bandwidth monitoring'']))"

definition stop_monitoring :: "bandwidth_monitor \<Rightarrow> bandwidth_monitor \<times> monitor_effect list" where
  "stop_monitoring self =
     (if \<not> monitoring self then (self, [])
      else (self\<lparr>monitoring := False\<rparr>,
            (case monitor_task self of Some task \<Rightarrow> [CancelTask task] | None \<Rightarrow> [])
              @ [LogInfo ''Stopped bandwidth monitoring'']))"

text \<open>\<open>interface.startswith(('lo', 'docker', 'br-', 'veth'))\<close>.\<close>

definition excluded :: "string \<Rightarrow> bool" where
  "excluded interface =
     (startswith interface ''lo'' \<or> startswith interface ''docker''
      \<or> startswith interface ''br-'' \<or> startswith interface ''veth'')"

text \<open>
  The dictionary \<open>current_stats\<close> of one interface: the counters and the time, then the
  update with the rates, from the previous sample of that interface (\<open>last\<close> in the source)
  when there is one. A record has all its fields from the start, so the rates are 0 before
  the update.
\<close>

definition new_sample :: "real \<Rightarrow> counters \<Rightarrow> sample option \<Rightarrow> sample" where
  "new_sample current_time stats last_opt =
     (let current_stats =
        \<lparr>timestamp = current_time,
         bytes_sent = c_bytes_sent stats, bytes_recv = c_bytes_recv stats,
         packets_sent = c_packets_sent stats, packets_recv = c_packets_recv stats,
         send_rate = 0, recv_rate = 0, send_packets_rate = 0, recv_packets_rate = 0\<rparr>
      in case last_opt of
        Some last_sample \<Rightarrow>
          (let time_diff = current_time - timestamp last_sample in
           if time_diff > 0 then
             current_stats
               \<lparr>send_rate := real_of_int (c_bytes_sent stats - bytes_sent last_sample) / time_diff,
                recv_rate := real_of_int (c_bytes_recv stats - bytes_recv last_sample) / time_diff,
                send_packets_rate :=
                  real_of_int (c_packets_sent stats - packets_sent last_sample) / time_diff,
                recv_packets_rate :=
                  real_of_int (c_packets_recv stats - packets_recv last_sample) / time_diff\<rparr>
           else
             current_stats
               \<lparr>send_rate := 0, recv_rate := 0, send_packets_rate := 0,
                recv_packets_rate := 0\<rparr>)
      | None \<Rightarrow>
          current_stats
            \<lparr>send_rate := 0, recv_rate := 0, send_packets_rate := 0, recv_packets_rate := 0\<rparr>)"

text \<open>The body of the loop over \<open>net_io.items()\<close>.\<close>

definition collect_interface ::
  "real \<Rightarrow> string \<times> counters \<Rightarrow> bandwidth_monitor \<Rightarrow> bandwidth_monitor" where
  "collect_interface current_time item self =
     (case item of (interface, stats) \<Rightarrow>
        if excluded interface then self
        else
          (let current_stats = new_sample current_time stats (last_stats self interface) in
           self\<lparr>interface_stats :=
                  (interface_stats self)
                    (interface \<mapsto> deque_append 60 (history self interface) current_stats),
                last_stats := (last_stats self)(interface \<mapsto> current_stats)\<rparr>))"

text \<open>
  \<open>_collect_stats\<close>: \<open>current_time\<close> is the reading of \<open>time.time()\<close> and \<open>net_io\<close> the
  result of \<open>psutil.net_io_counters(pernic=True)\<close>, the items of a dictionary or the
  exception it raised, which is logged and leaves the monitor as it was.
\<close>

definition collect_stats ::
  "real \<Rightarrow> exn + (string \<times> counters) list \<Rightarrow> bandwidth_monitor \<Rightarrow> bandwidth_monitor" where
  "collect_stats current_time net_io self =
     (case net_io of
        Inl e \<Rightarrow> self
      | Inr items \<Rightarrow> fold (collect_interface current_time) items self)"

text \<open>
  \<open>_monitor_loop\<close>, run over the readings of the clock and the counters that its
  iterations see, in order: while the \<open>monitoring\<close> flag is set, one \<open>_collect_stats\<close>
  for each reading. The list ends where the task is cancelled.
\<close>

fun monitor_loop ::
  "(real \<times> (exn + (string \<times> counters) list)) list \<Rightarrow> bandwidth_monitor \<Rightarrow> bandwidth_monitor" where
  "monitor_loop [] self = self"
| "monitor_loop ((current_time, net_io) # ticks) self =
     (if monitoring self then monitor_loop ticks (collect_stats current_time net_io self)
      else self)"

text \<open>A new monitor after \<open>start_monitoring\<close>, with 0 for the handle of its task.\<close>

definition started_monitor :: bandwidth_monitor where
  "started_monitor = fst (start_monitoring 0 BandwidthMonitor_init)"

text \<open>
  The rate as the specification words it: the difference of the current and the previous
  counter over the elapsed time when there is a previous sample and the elapsed time is
  strictly positive, and 0 otherwise.
\<close>

definition spec_rate :: "real \<Rightarrow> int \<Rightarrow> (sample \<Rightarrow> int) \<Rightarrow> sample option \<Rightarrow> real" where
  "spec_rate current_time current counter previous =
     (case previous of
        None \<Rightarrow> 0
      | Some p \<Rightarrow>
          if current_time - timestamp p > 0
          then real_of_int (current - counter p) / (current_time - timestamp p)
          else 0)"

text \<open>
  A concrete run of the loop: \<open>n\<close> ticks one second apart, each reporting the interface
  \<open>eth0\<close> with counters that grow from tick to tick.
\<close>

definition eth0_ticks :: "nat \<Rightarrow> (real \<times> (exn + (string \<times> counters) list)) list" where
  "eth0_ticks n =
     map (\<lambda>k. (real k,
                Inr [(''eth0'', \<lparr>c_bytes_sent = 1000 * int k, c_bytes_recv = 2000 * int k,
                                  c_packets_sent = int k, c_packets_recv = 2 * int k\<rparr>)]))
       [0..<n]"

section \<open>routes.py: the cached query endpoint\<close>

text \<open>
  The Python values that pass through the cache: strings, the documents that
  \<open>json.loads\<close> returns, time stamps (a \<open>datetime\<close> as a number) and \<open>None\<close>.
\<close>

datatype pyval =
    PyNone
  | PyBool bool
  | PyInt int
  | PyStr string
  | PyList "pyval list"
  | PyDict "(string \<times> pyval) list"
  | PyDatetime int

text \<open>The truth value of \<open>if v:\<close>.\<close>

fun truthy :: "pyval \<Rightarrow> bool" where
  "truthy PyNone = False"
| "truthy (PyBool b) = b"
| "truthy (PyInt i) = (i \<noteq> 0)"
| "truthy (PyStr s) = (s \<noteq> [])"
| "truthy (PyList xs) = (xs \<noteq> [])"
| "truthy (PyDict kvs) = (kvs \<noteq> [])"
| "truthy (PyDatetime t) = True"

text \<open>\<open>is_type(v, t.Dict)\<close>.\<close>

fun is_dict :: "pyval \<Rightarrow> bool" where
  "is_dict (PyDict kvs) = True"
| "is_dict v = False"

text \<open>
  The cache object \<open>_state.redis\<close> as \<open>query\<close> uses it. Its class is not among the
  sources, so its three methods are parameters: each returns its result (for the two
  writes the store afterwards) or the exception it raises. \<open>get_map\<close> returns \<open>PyNone\<close>
  for a field that is not there.
\<close>

record 's cache_ops =
  get_map :: "'s \<Rightarrow> string \<Rightarrow> string \<Rightarrow> exn + pyval"
  set_map_item :: "'s \<Rightarrow> string \<Rightarrow> string \<Rightarrow> pyval \<Rightarrow> exn + 's"
  expire :: "'s \<Rightarrow> string \<Rightarrow> int \<Rightarrow> exn + 's"

text \<open>
  The request \<open>data\<close>: its digest, its time stamp and its random string.
\<close>

record query_data =
  digest :: string
  data_timestamp :: int
  data_random :: string

text \<open>
  What \<open>execute\<close> or \<open>fake_output\<close> returned: an \<open>OutputDataModel\<close>, given by the text
  its \<open>export_json()\<close> returns, or any other object, given by its \<open>str()\<close>.
\<close>

datatype exec_output = OutputDataModel string | OtherOutput string

text \<open>
  The rest of the environment of one request: the configuration (\<open>cache.timeout\<close>,
  \<open>fake_output\<close>, \<open>messages.general\<close>), the result of awaiting \<open>fake_output(...)\<close> and
  \<open>execute(data)\<close> (an output, \<open>None\<close>, or an exception), the measured run time
  \<open>int(round(elapsedtime, 0))\<close>, and \<open>json.loads\<close>.
\<close>

record query_env =
  cache_timeout :: int
  fake_output_enabled :: bool
  messages_general :: string
  fake_output :: "exn + exec_output option"
  execute :: "exn + exec_output option"
  elapsed_seconds :: int
  json_loads :: "string \<Rightarrow> exn + pyval"

datatype log_entry = Info string | Debug string

record query_response =
  r_output :: pyval
  r_id :: string
  r_cached :: bool
  r_runtime :: int
  r_timestamp :: pyval
  r_format :: string
  r_random :: string
  r_level :: string
  r_keywords :: "string list"

text \<open>
  Lines 128 to 136: the value written to the cache, a document for a structured output and
  a string for anything else.
\<close>

definition raw_output :: "query_env \<Rightarrow> exec_output \<Rightarrow> exn + pyval" where
  "raw_output env out =
     (case out of
        OutputDataModel as_json \<Rightarrow> json_loads env as_json
      | OtherOutput s \<Rightarrow> Inr (PyStr s))"

text \<open>
  Lines 146 to 177, the end of \<open>query\<close> on both paths: the output is read from the cache
  once more and the response is built.
\<close>

definition respond ::
  "'s cache_ops \<Rightarrow> query_data \<Rightarrow> string \<Rightarrow> bool \<Rightarrow> int \<Rightarrow> pyval \<Rightarrow> 's \<Rightarrow> log_entry list
     \<Rightarrow> (exn + query_response) \<times> 's \<times> log_entry list" where
  "respond cache data cache_key cached runtime timestamp' s logged =
     (case get_map cache s cache_key ''output'' of
        Inl e \<Rightarrow> (Inl e, s, logged)
      | Inr cache_response \<Rightarrow>
          (Inr \<lparr>r_output = cache_response, r_id = cache_key, r_cached = cached,
                r_runtime = runtime, r_timestamp = timestamp',
                r_format = (if is_dict cache_response then ''application/json''
                            else ''text/plain''),
                r_random = data_random data, r_level = ''success'', r_keywords = []\<rparr>,
           s, logged @ [Info ''Execution completed'']))"

text \<open>
  \<open>query\<close>: the response or the exception that leaves the function, the store afterwards
  and the log lines written. No call of the function is inside a \<open>try\<close>, so an exception
  of a collaborator ends it at that point.
\<close>

definition query ::
  "'s cache_ops \<Rightarrow> query_env \<Rightarrow> query_data \<Rightarrow> 's
     \<Rightarrow> (exn + query_response) \<times> 's \<times> log_entry list" where
  "query cache env data s =
     (let cache_key = ''hyperglass.query.'' @ digest data;
          log0 = [Info ''Starting query execution'']
      in case get_map cache s cache_key ''output'' of
        Inl e \<Rightarrow> (Inl e, s, log0)
      | Inr cache_response \<Rightarrow>
          if truthy cache_response then
            (let log1 = log0 @ [Debug ''Cache hit''] in
             case expire cache s cache_key (cache_timeout env) of
               Inl e \<Rightarrow> (Inl e, s, log1)
             | Inr s1 \<Rightarrow>
                 (case get_map cache s1 cache_key ''timestamp'' of
                    Inl e \<Rightarrow> (Inl e, s1, log1)
                  | Inr timestamp' \<Rightarrow> respond cache data cache_key True 0 timestamp' s1 log1))
          else
            (let log1 = log0 @ [Debug ''Cache miss''];
                 timestamp' = PyDatetime (data_timestamp data)
             in case (if fake_output_enabled env then fake_output env else execute env) of
               Inl e \<Rightarrow> (Inl e, s, log1)
             | Inr output \<Rightarrow>
                 (let log2 = log1 @ [Debug ''Runtime: {!s} seconds''] in
                  case output of
                    None \<Rightarrow> (Inl (HyperglassError (messages_general env)), s, log2)
                  | Some out \<Rightarrow>
                      (case raw_output env out of
                         Inl e \<Rightarrow> (Inl e, s, log2)
                       | Inr raw \<Rightarrow>
                           (case set_map_item cache s cache_key ''output'' raw of
                              Inl e \<Rightarrow> (Inl e, s, log2)
                            | Inr s1 \<Rightarrow>
                                (case set_map_item cache s1 cache_key ''timestamp'' timestamp' of
                                   Inl e \<Rightarrow> (Inl e, s1, log2)
                                 | Inr s2 \<Rightarrow>
                                     (case expire cache s2 cache_key (cache_timeout env) of
                                        Inl e \<Rightarrow> (Inl e, s2, log2)
                                      | Inr s3 \<Rightarrow>
                                          respond cache data cache_key False
                                            (elapsed_seconds env) timestamp' s3
                                            (log2 @ [Debug ''Response cached'']))))))))"

text \<open>
  Modelled from the spec: the key-value store behind \<open>_state.redis\<close>, whose class is not
  among the sources. The specification describes it as a store of per-key field maps with
  \<open>get_field(key, field)\<close> returning the value or absent, \<open>set_field(key, field, value)\<close>
  and \<open>expire(key, ttl)\<close>, reachable in this model, so no operation raises. The model has
  no clock: a read that follows a write immediately is a read of the store the write left.
\<close>

record kv_store =
  field_maps :: "string \<Rightarrow> string \<rightharpoonup> pyval"
  ttl :: "string \<rightharpoonup> int"

definition get_field :: "kv_store \<Rightarrow> string \<Rightarrow> string \<Rightarrow> pyval" where
  "get_field s key field = (case field_maps s key field of None \<Rightarrow> PyNone | Some v \<Rightarrow> v)"

definition set_field :: "kv_store \<Rightarrow> string \<Rightarrow> string \<Rightarrow> pyval \<Rightarrow> kv_store" where
  "set_field s key field v =
     s\<lparr>field_maps := (field_maps s)(key := (field_maps s key)(field \<mapsto> v))\<rparr>"

definition store_expire :: "kv_store \<Rightarrow> string \<Rightarrow> int \<Rightarrow> kv_store" where
  "store_expire s key t = s\<lparr>ttl := (ttl s)(key \<mapsto> t)\<rparr>"

definition spec_store :: "kv_store cache_ops" where
  "spec_store =
     \<lparr>get_map = (\<lambda>s key field. Inr (get_field s key field)),
      set_map_item = (\<lambda>s key field v. Inr (set_field s key field v)),
      expire = (\<lambda>s key t. Inr (store_expire s key t))\<rparr>"

text \<open>
  A store that answers reads and writes as \<open>spec_store\<close> does and whose \<open>expire\<close> raises:
  the connection is lost when the refresh is sent.
\<close>

definition refresh_failing_store :: "kv_store cache_ops" where
  "refresh_failing_store =
     spec_store\<lparr>expire := (\<lambda>s key t. Inl (OtherException ''Connection reset by peer''))\<rparr>"

text \<open>A concrete request, its environment, and a store that holds its cached result.\<close>

definition example_data :: query_data where
  "example_data = \<lparr>digest = ''3f2a'', data_timestamp = 1700000500, data_random = ''x1''\<rparr>"

definition example_env :: query_env where
  "example_env =
     \<lparr>cache_timeout = 120, fake_output_enabled = False, messages_general = ''Error'',
      fake_output = Inr None,
      execute = Inr (Some (OtherOutput ''BGP routing table entry for 192.0.2.0/24'')),
      elapsed_seconds = 2,
      json_loads = (\<lambda>text. Inr (PyDict [(''routes'', PyStr text)]))\<rparr>"

definition example_store :: kv_store where
  "example_store =
     \<lparr>field_maps = (\<lambda>key. Map.empty)
        (''hyperglass.query.3f2a'' :=
           [''output'' \<mapsto> PyStr ''BGP routing table entry for 192.0.2.0/24'',
            ''timestamp'' \<mapsto> PyDatetime 1700000000]),
      ttl = [''hyperglass.query.3f2a'' \<mapsto> 60]\<rparr>"

definition empty_store :: kv_store where
  "empty_store = \<lparr>field_maps = (\<lambda>key. Map.empty), ttl = Map.empty\<rparr>"

section \<open>Python's \<open>int()\<close> on a string\<close>

text \<open>
  \<open>int(s)\<close> in base 10 on an ASCII string: white space around the number (tab, line feed,
  vertical tab, form feed, carriage return, space) is ignored, one sign may come first, the
  digits may be grouped by single underscores between them, and CPython from 3.11 on (the
  sources need it: they import \<open>datetime.UTC\<close>) refuses more than 4300 digits. \<open>None\<close>
  is the \<open>ValueError\<close>. Characters beyond ASCII, where Python also knows other digits and
  spaces, are read here as neither.
\<close>

definition is_space :: "char \<Rightarrow> bool" where
  "is_space c = ((of_char c :: nat) \<in> set [9, 10, 11, 12, 13, 32])"

definition is_digit :: "char \<Rightarrow> bool" where
  "is_digit c = (48 \<le> (of_char c :: nat) \<and> (of_char c :: nat) \<le> 57)"

definition digit_val :: "char \<Rightarrow> nat" where
  "digit_val c = of_char c - 48"

definition py_strip :: "string \<Rightarrow> string" where
  "py_strip s = rev (dropWhile is_space (rev (dropWhile is_space s)))"

text \<open>
  The digits after the sign: \<open>acc\<close> is the value read so far and \<open>after_digit\<close> says
  whether the character before was a digit (an underscore needs a digit on both sides).
\<close>

fun parse_digits :: "string \<Rightarrow> nat \<Rightarrow> bool \<Rightarrow> nat option" where
  "parse_digits [] acc after_digit = (if after_digit then Some acc else None)"
| "parse_digits (c # cs) acc after_digit =
     (if is_digit c then parse_digits cs (10 * acc + digit_val c) True
      else if c = CHR ''_'' \<and> after_digit then parse_digits cs acc False
      else None)"

definition py_int :: "string \<Rightarrow> int option" where
  "py_int s =
     (case py_strip s of
        [] \<Rightarrow> None
      | c # cs \<Rightarrow>
          (let negative = (c = CHR ''-'');
               digits = (if c = CHR ''-'' \<or> c = CHR ''+'' then cs else c # cs)
           in if length (filter is_digit digits) > 4300 then None
              else (case parse_digits digits 0 False of
                      None \<Rightarrow> None
                    | Some n \<Rightarrow> Some (if negative then - int n else int n))))"

section \<open>als\_features.py and als\_config\_validator.py: the configuration\<close>

text \<open>
  The configuration models. A field \<open>enabled\<close> exists in each of the four classes, so the
  records prefix it.
\<close>

record speedtest_config =
  st_enabled :: bool
  file_sizes :: "string list"
  max_file_size :: string
  chunk_size :: int
  upload_enabled :: bool
  download_enabled :: bool

record network_tools_config =
  nt_enabled :: bool
  ping_enabled :: bool
  traceroute_enabled :: bool
  iperf3_enabled :: bool
  iperf3_port_range :: "int \<times> int"
  max_ping_count :: int
  max_traceroute_hops :: int
  ping_timeout :: int
  traceroute_timeout :: int

record bandwidth_config =
  bw_enabled :: bool
  update_interval :: int
  history_length :: int
  excluded_interfaces :: "string list"
  auto_start :: bool

record als_features =
  speedtest :: speedtest_config
  network_tools :: network_tools_config
  bandwidth :: bandwidth_config
  als_enabled :: bool

definition valid_units :: "string list" where
  "valid_units = [''KB'', ''MB'', ''GB'']"



text \<open>
  The body of the loop over \<open>config.file_sizes\<close> in \<open>_validate_speedtest_config\<close>. The
  check of \<open>max_file_size\<close> in that function only writes a warning to the log and adds no
  error.
\<close>

definition check_file_size :: "string \<Rightarrow> string list" where
  "check_file_size size' =
     (if \<not> list_ex (endswith size') valid_units
      then [''Invalid file size format: '' @ size']
      else (case py_int (drop_last 2 size') of
              Some size_num' \<Rightarrow>
                if size_num' \<le> 0 then [''File size must be positive: '' @ size'] else []
            | None \<Rightarrow> [''Invalid file size number: '' @ size']))"

definition validate_speedtest_config :: "speedtest_config \<Rightarrow> string list" where
  "validate_speedtest_config config =
     (if \<not> st_enabled config then []
      else concat (map check_file_size (file_sizes config))
        @ (if chunk_size config < 1 \<or> chunk_size config > 1024
           then [''Chunk size must be between 1 and 1024 KB''] else []))"

definition validate_network_tools_config :: "network_tools_config \<Rightarrow> string list" where
  "validate_network_tools_config config =
     (if \<not> nt_enabled config then []
      else (case iperf3_port_range config of (start_port, end_port) \<Rightarrow>
        (if start_port \<ge> end_port
         then [''iPerf3 start port must be less than end port''] else [])
        @ (if start_port < 1024 \<or> end_port > 65535
           then [''iPerf3 ports must be between 1024 and 65535''] else [])
        @ (if max_ping_count config < 1 \<or> max_ping_count config > 100
           then [''Max ping count must be between 1 and 100''] else [])
        @ (if max_traceroute_hops config < 1 \<or> max_traceroute_hops config > 255
           then [''Max traceroute hops must be between 1 and 255''] else [])
        @ (if ping_timeout config < 5 \<or> ping_timeout config > 120
           then [''Ping timeout must be between 5 and 120 seconds''] else [])
        @ (if traceroute_timeout config < 10 \<or> traceroute_timeout config > 300
           then [''Traceroute timeout must be between 10 and 300 seconds''] else [])))"

text \<open>
  \<open>_validate_bandwidth_config\<close>. Its last check, that \<open>excluded_interfaces\<close> is a list,
  holds by the type of the field.
\<close>

definition validate_bandwidth_config :: "bandwidth_config \<Rightarrow> string list" where
  "validate_bandwidth_config config =
     (if \<not> bw_enabled config then []
      else (if update_interval config < 1 \<or> update_interval config > 60
            then [''Update interval must be between 1 and 60 seconds''] else [])
        @ (if history_length config < 10 \<or> history_length config > 3600
           then [''History length must be between 10 and 3600 seconds''] else []))"

text \<open>
  The body of the \<open>try\<close> in \<open>validate_als_config\<close>: the pair it returns, or the exception
  raised in it together with the list \<open>errors\<close> at that moment. \<open>ALSFeatures_init\<close> is
  \<open>ALSFeatures(**als_config)\<close>, the pydantic construction of the model from the raw
  section: the model, or the exception pydantic raises. \<open>config_data\<close> is the configuration
  dictionary.
\<close>

definition validate_als_config_try ::
  "(pyval \<Rightarrow> exn + als_features) \<Rightarrow> (string \<rightharpoonup> pyval)
     \<Rightarrow> (exn \<times> string list) + (bool \<times> string list)" where
  "validate_als_config_try ALSFeatures_init config_data =
     (let als_config = (case config_data ''als_features'' of None \<Rightarrow> PyDict [] | Some v \<Rightarrow> v) in
      if \<not> truthy als_config then Inr (True, [])
      else (case ALSFeatures_init als_config of
              Inl e \<Rightarrow> Inl (e, [])
            | Inr features \<Rightarrow>
                (let errors = validate_speedtest_config (speedtest features)
                       @ validate_network_tools_config (network_tools features)
                       @ validate_bandwidth_config (bandwidth features)
                 in if errors \<noteq> [] then Inr (False, errors) else Inr (True, []))))"

text \<open>\<open>validate_als_config\<close>: the \<open>try\<close> with its handler \<open>except Exception\<close>.\<close>

definition validate_als_config ::
  "(pyval \<Rightarrow> exn + als_features) \<Rightarrow> (string \<rightharpoonup> pyval) \<Rightarrow> bool \<times> string list" where
  "validate_als_config ALSFeatures_init config_data =
     (case validate_als_config_try ALSFeatures_init config_data of
        Inr result \<Rightarrow> result
      | Inl (e, errors) \<Rightarrow>
          (False, errors @ [''ALS configuration validation error: '' @ exn_str e]))"

text \<open>
  Two constructions for concrete inputs: one that refuses every section, as pydantic does
  for the file size \<open>1XB\<close> of the repository's test, and one that returns the defaults of the
  model classes.
\<close>

definition default_features :: als_features where
  "default_features =
     \<lparr>speedtest = \<lparr>st_enabled = True, file_sizes = [''1MB'', ''10MB'', ''100MB'', ''1GB''],
                   max_file_size = ''1GB'', chunk_size = 4, upload_enabled = True,
                   download_enabled = True\<rparr>,
      network_tools = \<lparr>nt_enabled = True, ping_enabled = True, traceroute_enabled = True,
                       iperf3_enabled = True, iperf3_port_range = (30000, 31000),
                       max_ping_count = 20, max_traceroute_hops = 64, ping_timeout = 30,
                       traceroute_timeout = 60\<rparr>,
      bandwidth = \<lparr>bw_enabled = True, update_interval = 1, history_length = 60,
                   excluded_interfaces = [''lo'', ''docker'', ''br-'', ''veth''],
                   auto_start = True\<rparr>,
      als_enabled = True\<rparr>"

definition init_refusing :: "pyval \<Rightarrow> exn + als_features" where
  "init_refusing als_config = Inl (ValueError ''Invalid file size format: 1XB'')"

definition init_defaults :: "pyval \<Rightarrow> exn + als_features" where
  "init_defaults als_config = Inr default_features"

section \<open>speedtest.py: the file download endpoint\<close>


text \<open>
  The generator \<open>generate_file_data\<close>, with \<open>chunk_size = 64 * 1024\<close>: the chunks it
  yields from \<open>bytes_sent\<close> on. A byte is a \<open>char\<close>.
\<close>

function generate_file_data :: "nat \<Rightarrow> nat \<Rightarrow> string list" where
  "generate_file_data total_bytes bytes_sent' =
     (if bytes_sent' < total_bytes then
        (let remaining = min (64 * 1024) (total_bytes - bytes_sent');
             chunk = replicate remaining (CHR 0x00)
         in chunk # generate_file_data total_bytes (bytes_sent' + length chunk))
      else [])"
  by pat_completeness auto
termination
  by (relation "measure (\<lambda>(total_bytes, bytes_sent'). total_bytes - bytes_sent')") auto

declare generate_file_data.simps [simp del]




section \<open>Properties of the session manager\<close>

lemma stop_server_absent:
  "processes self port = None \<Longrightarrow> stop_server port self = (False, self, [])"
  by (simp add: stop_server_def)







lemma probe_ports_length: "length (snd (probe_ports env r n i)) \<le> n"
proof (induction n arbitrary: i)
  case 0
  then show ?case by simp
next
  case (Suc n)
  from Suc.IH [of "Suc i"] show ?case by (simp add: Let_def case_prod_beta)
qed

lemma probe_ports_all_fail:
  "(\<forall>k. i \<le> k \<and> k < i + n \<longrightarrow> \<not> bind_ok env k (randint r (entropy env k))) \<Longrightarrow>
   probe_ports env r n i =
     (Inl (RuntimeError ''No available ports in range''),
      map (\<lambda>k. randint r (entropy env k)) [i..<i + n])"
proof (induction n arbitrary: i)
  case 0
  then show ?case by simp
next
  case (Suc n)
  have first: "\<not> bind_ok env i (randint r (entropy env i))"
    using Suc.prems by simp
  have rest: "\<forall>k. Suc i \<le> k \<and> k < Suc i + n \<longrightarrow> \<not> bind_ok env k (randint r (entropy env k))"
    using Suc.prems by simp
  have "[i..<i + Suc n] = i # [Suc i..<Suc i + n]"
    by (simp add: upt_conv_Cons)
  with first Suc.IH [OF rest] show ?case by (simp add: Let_def)
qed

lemma probe_ports_Inl:
  "fst (probe_ports env r n i) = Inl e \<Longrightarrow>
   e = RuntimeError ''No available ports in range''
   \<and> (\<forall>k. i \<le> k \<and> k < i + n \<longrightarrow> \<not> bind_ok env k (randint r (entropy env k)))"
proof (induction n arbitrary: i)
  case 0
  then show ?case by auto
next
  case (Suc n)
  show ?case
  proof (cases "bind_ok env i (randint r (entropy env i))")
    case True
    with Suc.prems show ?thesis by (simp add: Let_def)
  next
    case False
    with Suc.prems have "fst (probe_ports env r n (Suc i)) = Inl e"
      by (simp add: Let_def case_prod_beta)
    from Suc.IH [OF this] have e: "e = RuntimeError ''No available ports in range''"
      and rest: "\<And>k. Suc i \<le> k \<Longrightarrow> k < Suc i + n \<Longrightarrow> \<not> bind_ok env k (randint r (entropy env k))"
      by blast+
    have "\<not> bind_ok env k (randint r (entropy env k))" if "i \<le> k" "k < i + Suc n" for k
    proof (cases "k = i")
      case True
      with False show ?thesis by simp
    next
      case False
      with that rest [of k] show ?thesis by simp
    qed
    with e show ?thesis by blast
  qed
qed

lemma probe_ports_Inr:
  "fst (probe_ports env r n i) = Inr port \<Longrightarrow>
   \<exists>k. i \<le> k \<and> k < i + n \<and> port = randint r (entropy env k) \<and> bind_ok env k port
     \<and> snd (probe_ports env r n i) = map (\<lambda>k. randint r (entropy env k)) [i..<Suc k]"
proof (induction n arbitrary: i)
  case 0
  then show ?case by simp
next
  case (Suc n)
  show ?case
  proof (cases "bind_ok env i (randint r (entropy env i))")
    case True
    with Suc.prems show ?thesis by (auto simp: Let_def intro!: exI [of _ i])
  next
    case False
    with Suc.prems have "fst (probe_ports env r n (Suc i)) = Inr port"
      by (simp add: Let_def case_prod_beta)
    from Suc.IH [OF this] obtain k where k: "Suc i \<le> k" "k < Suc i + n"
      "port = randint r (entropy env k)" "bind_ok env k port"
      "snd (probe_ports env r n (Suc i)) = map (\<lambda>k. randint r (entropy env k)) [Suc i..<Suc k]"
      by blast
    have "[i..<Suc k] = i # [Suc i..<Suc k]" using k(1) by (simp add: upt_conv_Cons)
    with k False show ?thesis
      by (intro exI [of _ k]) (simp add: Let_def case_prod_beta)
  qed
qed

lemma randint_range: "a \<le> b \<Longrightarrow> a \<le> randint (a, b) e \<and> randint (a, b) e \<le> b"
proof -
  assume "a \<le> b"
  then have "0 < b - a + 1" by simp
  then have "0 \<le> int e mod (b - a + 1)" and "int e mod (b - a + 1) < b - a + 1"
    by (rule pos_mod_sign, rule pos_mod_bound)
  then show ?thesis by (simp add: randint_def)
qed


lemma get_available_port_exhausted:
  assumes "\<forall>i<100. \<not> bind_ok env i (randint (port_range self) (entropy env i))"
  shows "get_available_port env self =
     (Inl (RuntimeError ''No available ports in range''),
      map (\<lambda>i. randint (port_range self) (entropy env i)) [0..<100])"
  using probe_ports_all_fail [of 0 100 env "port_range self"] assms
  by (simp add: get_available_port_def)

lemma start_server_port_failure:
  "fst (get_available_port env self) = Inl e \<Longrightarrow>
   start_server env duration self =
     (Inl (HTTPException 500 (''Failed to start iperf3 server: '' @ exn_str e)), self)"
  by (simp add: start_server_def)

lemma start_server_spawn_failure:
  "fst (get_available_port env self) = Inr port \<Longrightarrow>
   spawn env [''iperf3'', ''-s'', ''-p'', str_int port, ''-1'', ''--json''] = Inl e \<Longrightarrow>
   start_server env duration self =
     (Inl (HTTPException 500 (''Failed to start iperf3 server: '' @ exn_str e)), self)"
  by (simp add: start_server_def)

lemma start_server_exhausted:
  assumes "\<forall>i<100. \<not> bind_ok env i (randint (port_range self) (entropy env i))"
  shows "start_server env duration self =
     (Inl (HTTPException 500 ''Failed to start iperf3 server: No available ports in range''), self)"
  using get_available_port_exhausted [OF assms] start_server_port_failure [of env self _ duration]
  by simp

text \<open>
  C2 (as amended). \<open>get_available_port\<close> probes at most 100 ports. When all 100 probing binds
  fail it raises \<open>RuntimeError\<close> ("No available ports in range") after exactly 100 probes, and
  \<open>start_server\<close> fails with an HTTP 500 whose detail carries that message, registering no
  session. A spawn failure leaves through the same handler: it is the same HTTP 500 with the
  same detail prefix and the spawn exception's message, and registers no session either.
\<close>

theorem start_server_failures:
  "length (snd (get_available_port env self)) \<le> 100
   \<and> ((\<forall>i<100. \<not> bind_ok env i (randint (port_range self) (entropy env i))) \<longrightarrow>
        length (snd (get_available_port env self)) = 100
        \<and> fst (get_available_port env self) = Inl (RuntimeError ''No available ports in range'')
        \<and> start_server env duration self =
            (Inl (HTTPException 500
               ''Failed to start iperf3 server: No available ports in range''), self))
   \<and> (\<forall>port e. fst (get_available_port env self) = Inr port
        \<and> spawn env [''iperf3'', ''-s'', ''-p'', str_int port, ''-1'', ''--json''] = Inl e \<longrightarrow>
        start_server env duration self =
          (Inl (HTTPException 500 (''Failed to start iperf3 server: '' @ exn_str e)), self))"
proof -
  have bound: "length (snd (get_available_port env self)) \<le> 100"
    by (simp add: get_available_port_def probe_ports_length)
  have exhausted: "length (snd (get_available_port env self)) = 100
        \<and> fst (get_available_port env self) = Inl (RuntimeError ''No available ports in range'')
        \<and> start_server env duration self =
            (Inl (HTTPException 500
               ''Failed to start iperf3 server: No available ports in range''), self)"
    if "\<forall>i<100. \<not> bind_ok env i (randint (port_range self) (entropy env i))"
    using get_available_port_exhausted [OF that] start_server_exhausted [OF that] by simp
  from bound exhausted start_server_spawn_failure show ?thesis by blast
qed

theorem start_server_failures_witness:
  "length (snd (get_available_port env_exhausted IPerf3Server_init)) = 100
   \<and> fst (get_available_port env_exhausted IPerf3Server_init)
       = Inl (RuntimeError ''No available ports in range'')
   \<and> start_server env_exhausted 300 IPerf3Server_init =
       (Inl (HTTPException 500 ''Failed to start iperf3 server: No available ports in range''),
        IPerf3Server_init)
   \<and> processes (snd (start_server env_exhausted 300 IPerf3Server_init)) = Map.empty"
  using start_server_failures [of env_exhausted IPerf3Server_init 300]
  by (simp add: env_exhausted_def IPerf3Server_init_def)

lemma probe_ports_first:
  "0 < n \<Longrightarrow> bind_ok env i (randint r (entropy env i)) \<Longrightarrow>
   probe_ports env r n i = (Inr (randint r (entropy env i)), [randint r (entropy env i)])"
  by (cases n) (simp_all add: Let_def)

lemma env_spawn_fails_port:
  "fst (get_available_port env_spawn_fails IPerf3Server_init) = Inr 30000"
proof -
  have "probe_ports env_spawn_fails (30000, 31000) 100 0 =
      (Inr (randint (30000, 31000) (entropy env_spawn_fails 0)),
       [randint (30000, 31000) (entropy env_spawn_fails 0)])"
    by (rule probe_ports_first) (simp_all add: env_spawn_fails_def)
  then show ?thesis
    by (simp add: get_available_port_def IPerf3Server_init_def env_spawn_fails_def randint_def)
qed

text \<open>
  The claim C2 as stated asks for a failure of its own kind, retryable and distinct from the
  spawn failure. The code raises the same exception class with the same status code 500 and
  the same first 31 characters of detail for both: only the text of the cause, after
  "Failed to start iperf3 server: ", differs.
\<close>

theorem start_server_same_failure_kind:
  "start_server env_exhausted 300 IPerf3Server_init =
       (Inl (HTTPException 500 ''Failed to start iperf3 server: No available ports in range''),
        IPerf3Server_init)
   \<and> start_server env_spawn_fails 300 IPerf3Server_init =
       (Inl (HTTPException 500
          ''Failed to start iperf3 server: [Errno 2] No such file or directory''),
        IPerf3Server_init)
   \<and> map_sum (\<lambda>e. (status_code e, take 31 (detail e))) sr_port
         (fst (start_server env_exhausted 300 IPerf3Server_init))
       = Inl (500, ''Failed to start iperf3 server: '')
   \<and> map_sum (\<lambda>e. (status_code e, take 31 (detail e))) sr_port
         (fst (start_server env_spawn_fails 300 IPerf3Server_init))
       = Inl (500, ''Failed to start iperf3 server: '')"
proof -
  have a: "start_server env_exhausted 300 IPerf3Server_init =
       (Inl (HTTPException 500 ''Failed to start iperf3 server: No available ports in range''),
        IPerf3Server_init)"
    by (rule start_server_exhausted) (simp add: env_exhausted_def)
  have b: "start_server env_spawn_fails 300 IPerf3Server_init =
       (Inl (HTTPException 500
          ''Failed to start iperf3 server: [Errno 2] No such file or directory''),
        IPerf3Server_init)"
    using start_server_spawn_failure [OF env_spawn_fails_port, of _ 300]
    by (simp add: env_spawn_fails_def)
  show ?thesis unfolding a b by simp
qed

text \<open>
  A port that is returned lies in the port range and is the last one probed, and a start
  that succeeds registers the new process under it.
\<close>

lemma get_available_port_in_range:
  assumes "fst (get_available_port env self) = Inr port" "fst (port_range self) \<le> snd (port_range self)"
  shows "fst (port_range self) \<le> port \<and> port \<le> snd (port_range self)
     \<and> length (snd (get_available_port env self)) \<le> 100
     \<and> last (snd (get_available_port env self)) = port"
proof -
  obtain a b where r: "port_range self = (a, b)" by (cases "port_range self")
  from assms(1) have "fst (probe_ports env (a, b) 100 0) = Inr port"
    by (simp add: get_available_port_def r)
  from probe_ports_Inr [OF this] obtain k where k: "port = randint (a, b) (entropy env k)"
    "snd (probe_ports env (a, b) 100 0) = map (\<lambda>k. randint (a, b) (entropy env k)) [0..<Suc k]"
    by auto
  from assms(2) r have "a \<le> b" by simp
  from randint_range [OF this, of "entropy env k"] k(1)
  have "a \<le> port \<and> port \<le> b" by simp
  moreover have "last (snd (probe_ports env (a, b) 100 0)) = port"
    unfolding k(2) using k(1) by (simp add: last_map)
  ultimately show ?thesis
    using probe_ports_length [of env "(a, b)" 100 0] by (simp add: get_available_port_def r)
qed

lemma start_server_registers:
  assumes "fst (get_available_port env self) = Inr port"
    and "spawn env [''iperf3'', ''-s'', ''-p'', str_int port, ''-1'', ''--json''] = Inr proc"
  shows "processes (snd (start_server env duration self)) = (processes self)(port \<mapsto> proc)"
    and "fst (stop_server port (snd (start_server env duration self))) = True"
  using assms by (simp_all add: start_server_def stop_server_def)

section \<open>Properties of the bandwidth monitor\<close>

lemma collect_interface_other:
  "fst item \<noteq> i \<Longrightarrow>
   interface_stats (collect_interface t item self) i = interface_stats self i
   \<and> last_stats (collect_interface t item self) i = last_stats self i"
  by (cases item) (simp add: collect_interface_def Let_def)

lemma fold_collect_other:
  "i \<notin> fst ` set items \<Longrightarrow>
   interface_stats (fold (collect_interface t) items self) i = interface_stats self i
   \<and> last_stats (fold (collect_interface t) items self) i = last_stats self i"
proof (induction items arbitrary: self)
  case Nil
  then show ?case by simp
next
  case (Cons item items)
  then have "fst item \<noteq> i" and "i \<notin> fst ` set items" by auto
  with Cons.IH [of "collect_interface t item self"] collect_interface_other [of item i t self]
  show ?case by simp
qed

lemma collect_interface_same:
  "\<not> excluded i \<Longrightarrow>
   interface_stats (collect_interface t (i, stats) self) i =
     Some (deque_append 60 (history self i) (new_sample t stats (last_stats self i)))
   \<and> last_stats (collect_interface t (i, stats) self) i =
     Some (new_sample t stats (last_stats self i))"
  by (simp add: collect_interface_def Let_def)

lemma fold_collect_interface:
  assumes "distinct (map fst items)" "(i, stats) \<in> set items" "\<not> excluded i"
  shows "interface_stats (fold (collect_interface t) items self) i =
     Some (deque_append 60 (history self i) (new_sample t stats (last_stats self i)))
   \<and> last_stats (fold (collect_interface t) items self) i =
     Some (new_sample t stats (last_stats self i))"
  using assms(1,2)
proof (induction items arbitrary: self)
  case Nil
  then show ?case by simp
next
  case (Cons item items)
  show ?case
  proof (cases "fst item = i")
    case True
    from Cons.prems(1) True have notin: "i \<notin> fst ` set items" by auto
    with Cons.prems(2) True have item: "item = (i, stats)"
      by (cases item) force
    from fold_collect_other [OF notin, of t "collect_interface t item self"]
      collect_interface_same [OF assms(3), of t stats self] item
    show ?thesis by simp
  next
    case False
    with Cons.prems have d: "distinct (map fst items)" and m: "(i, stats) \<in> set items"
      by auto
    from collect_interface_other [OF False, of t self]
    have "history (collect_interface t item self) i = history self i"
      and "last_stats (collect_interface t item self) i = last_stats self i"
      by (simp_all add: history_def)
    with Cons.IH [OF d m, of "collect_interface t item self"] show ?thesis by simp
  qed
qed

lemma collect_stats_interface:
  assumes "distinct (map fst items)" "(i, stats) \<in> set items" "\<not> excluded i"
  shows "history (collect_stats t (Inr items) self) i =
     deque_append 60 (history self i) (new_sample t stats (last_stats self i))"
    and "last_stats (collect_stats t (Inr items) self) i =
     Some (new_sample t stats (last_stats self i))"
  using fold_collect_interface [OF assms, of t self]
  by (simp_all add: collect_stats_def history_def)

lemma deque_append_last: "0 < m \<Longrightarrow> deque_append m d x \<noteq> [] \<and> last (deque_append m d x) = x"
  by (cases d) (auto simp: deque_append_def Let_def last_tl)

lemma new_sample_rates:
  "send_rate (new_sample t stats prev) = spec_rate t (c_bytes_sent stats) bytes_sent prev"
  "recv_rate (new_sample t stats prev) = spec_rate t (c_bytes_recv stats) bytes_recv prev"
  "send_packets_rate (new_sample t stats prev) =
     spec_rate t (c_packets_sent stats) packets_sent prev"
  "recv_packets_rate (new_sample t stats prev) =
     spec_rate t (c_packets_recv stats) packets_recv prev"
  by (simp_all add: new_sample_def spec_rate_def Let_def split: option.splits)

lemma new_sample_counters:
  "timestamp (new_sample t stats prev) = t"
  "bytes_sent (new_sample t stats prev) = c_bytes_sent stats"
  "bytes_recv (new_sample t stats prev) = c_bytes_recv stats"
  "packets_sent (new_sample t stats prev) = c_packets_sent stats"
  "packets_recv (new_sample t stats prev) = c_packets_recv stats"
  by (simp_all add: new_sample_def Let_def split: option.splits)


lemma eth0_not_excluded: "\<not> excluded ''eth0''"
  by (simp add: excluded_def startswith_def)

lemma scenario_eth0:
  "\<exists>s1 s2.
        history (monitor_loop
          [(t0, Inr [(''eth0'', \<lparr>c_bytes_sent = 1000, c_bytes_recv = 2000,
                                 c_packets_sent = p1, c_packets_recv = q1\<rparr>)]),
           (t0 + 1, Inr [(''eth0'', \<lparr>c_bytes_sent = 1500, c_bytes_recv = 2600,
                                 c_packets_sent = p2, c_packets_recv = q2\<rparr>)])]
          started_monitor) ''eth0'' = [s1, s2]
      \<and> send_rate s1 = 0 \<and> recv_rate s1 = 0 \<and> send_rate s2 = 500 \<and> recv_rate s2 = 600"
  by (simp add: collect_stats_def collect_interface_def eth0_not_excluded
      Let_def history_def started_monitor_def start_monitoring_def BandwidthMonitor_init_def
      deque_append_def new_sample_def)

text \<open>
  C5. In a tick at time \<open>t\<close> whose counter dictionary reports interface \<open>i\<close> with
  counters \<open>stats\<close>, and \<open>i\<close> is not filtered out by its prefix, the sampler stores a new
  sample for \<open>i\<close>, as the previous sample for the next tick and as the newest entry of the
  history. Its counters are the current ones and each of its four rate fields is
  \<open>spec_rate\<close>: the counter difference over the elapsed time when a previous sample exists
  and the elapsed time is strictly positive, and 0 otherwise. In particular, on a newly
  started monitor two ticks one second apart that report \<open>eth0\<close> with 1000/2000 and then
  1500/2600 bytes sent/received leave a history of two samples, the first with rates 0 and
  the second with \<open>send_rate = 500\<close> and \<open>recv_rate = 600\<close>.
\<close>

theorem collect_stats_rates:
  assumes "distinct (map fst items)" "(i, stats) \<in> set items" "\<not> excluded i"
  shows "(\<exists>s. last_stats (collect_stats t (Inr items) self) i = Some s
      \<and> history (collect_stats t (Inr items) self) i \<noteq> []
      \<and> last (history (collect_stats t (Inr items) self) i) = s
      \<and> timestamp s = t
      \<and> bytes_sent s = c_bytes_sent stats \<and> bytes_recv s = c_bytes_recv stats
      \<and> packets_sent s = c_packets_sent stats \<and> packets_recv s = c_packets_recv stats
      \<and> send_rate s = spec_rate t (c_bytes_sent stats) bytes_sent (last_stats self i)
      \<and> recv_rate s = spec_rate t (c_bytes_recv stats) bytes_recv (last_stats self i)
      \<and> send_packets_rate s = spec_rate t (c_packets_sent stats) packets_sent (last_stats self i)
      \<and> recv_packets_rate s =
          spec_rate t (c_packets_recv stats) packets_recv (last_stats self i))
    \<and> (\<exists>s1 s2.
        history (monitor_loop
          [(t0, Inr [(''eth0'', \<lparr>c_bytes_sent = 1000, c_bytes_recv = 2000,
                                 c_packets_sent = p1, c_packets_recv = q1\<rparr>)]),
           (t0 + 1, Inr [(''eth0'', \<lparr>c_bytes_sent = 1500, c_bytes_recv = 2600,
                                 c_packets_sent = p2, c_packets_recv = q2\<rparr>)])]
          started_monitor) ''eth0'' = [s1, s2]
      \<and> send_rate s1 = 0 \<and> recv_rate s1 = 0 \<and> send_rate s2 = 500 \<and> recv_rate s2 = 600)"
proof (rule conjI)
  let ?s = "new_sample t stats (last_stats self i)"
  have stored: "last_stats (collect_stats t (Inr items) self) i = Some ?s"
    by (rule collect_stats_interface [OF assms])
  have newest: "history (collect_stats t (Inr items) self) i \<noteq> []
      \<and> last (history (collect_stats t (Inr items) self) i) = ?s"
    using collect_stats_interface(1) [OF assms, of t self] deque_append_last [of 60]
    by simp
  from stored newest new_sample_rates [of t stats "last_stats self i"]
    new_sample_counters [of t stats "last_stats self i"]
  show "\<exists>s. last_stats (collect_stats t (Inr items) self) i = Some s
      \<and> history (collect_stats t (Inr items) self) i \<noteq> []
      \<and> last (history (collect_stats t (Inr items) self) i) = s
      \<and> timestamp s = t
      \<and> bytes_sent s = c_bytes_sent stats \<and> bytes_recv s = c_bytes_recv stats
      \<and> packets_sent s = c_packets_sent stats \<and> packets_recv s = c_packets_recv stats
      \<and> send_rate s = spec_rate t (c_bytes_sent stats) bytes_sent (last_stats self i)
      \<and> recv_rate s = spec_rate t (c_bytes_recv stats) bytes_recv (last_stats self i)
      \<and> send_packets_rate s = spec_rate t (c_packets_sent stats) packets_sent (last_stats self i)
      \<and> recv_packets_rate s =
          spec_rate t (c_packets_recv stats) packets_recv (last_stats self i)"
    by (intro exI [of _ ?s]) simp
qed (rule scenario_eth0)

theorem collect_stats_rates_witness:
  "\<exists>s. last_stats
        (collect_stats 101
          (Inr [(''eth0'', \<lparr>c_bytes_sent = 1500, c_bytes_recv = 2600,
                            c_packets_sent = 15, c_packets_recv = 26\<rparr>)])
          (collect_stats 100
            (Inr [(''eth0'', \<lparr>c_bytes_sent = 1000, c_bytes_recv = 2000,
                              c_packets_sent = 10, c_packets_recv = 20\<rparr>)])
            BandwidthMonitor_init)) ''eth0'' = Some s
     \<and> timestamp s = 101 \<and> bytes_sent s = 1500 \<and> bytes_recv s = 2600
     \<and> send_rate s = 500 \<and> recv_rate s = 600
     \<and> send_packets_rate s = 5 \<and> recv_packets_rate s = 6"
  using collect_stats_rates
    [of "[(''eth0'', \<lparr>c_bytes_sent = 1500, c_bytes_recv = 2600,
                      c_packets_sent = 15, c_packets_recv = 26\<rparr>)]"
        "''eth0''"
        "\<lparr>c_bytes_sent = 1500, c_bytes_recv = 2600, c_packets_sent = 15, c_packets_recv = 26\<rparr>"
        101
        "collect_stats 100
            (Inr [(''eth0'', \<lparr>c_bytes_sent = 1000, c_bytes_recv = 2000,
                              c_packets_sent = 10, c_packets_recv = 20\<rparr>)])
            BandwidthMonitor_init"]
  by (simp add: eth0_not_excluded spec_rate_def collect_stats_def collect_interface_def
      new_sample_def Let_def BandwidthMonitor_init_def)

lemma start_monitoring_running:
  "monitoring self \<Longrightarrow> start_monitoring new_task self = (self, [])"
  by (simp add: start_monitoring_def)

lemma start_monitoring_sets_flag: "monitoring (fst (start_monitoring new_task self))"
  by (simp add: start_monitoring_def)

text \<open>
  C8. \<open>start_monitoring\<close> on a monitor whose \<open>monitoring\<close> flag is set returns the monitor
  unchanged (flag, task handle, histories and previous samples) and asks nothing of the
  scheduler or the log: no second loop is created. So a second start right after a first one
  is a no-operation, whatever the state before the first.
\<close>

theorem start_monitoring_idempotent:
  "(monitoring self \<longrightarrow> start_monitoring new_task self = (self, []))
   \<and> start_monitoring new_task (fst (start_monitoring first_task self))
       = (fst (start_monitoring first_task self), [])"
  using start_monitoring_running [of self new_task]
    start_monitoring_running [OF start_monitoring_sets_flag, of new_task first_task self]
  by simp

theorem start_monitoring_idempotent_witness:
  "monitoring (fst (start_monitoring 1 BandwidthMonitor_init))
   \<and> snd (start_monitoring 1 BandwidthMonitor_init)
       = [CreateTask 1, LogInfo ''Started bandwidth monitoring'']
   \<and> start_monitoring 2 (fst (start_monitoring 1 BandwidthMonitor_init))
       = (BandwidthMonitor_init\<lparr>monitoring := True, monitor_task := Some 1\<rparr>, [])"
  using start_monitoring_idempotent [of "fst (start_monitoring 1 BandwidthMonitor_init)" 2 1]
  by (simp add: start_monitoring_def BandwidthMonitor_init_def)

lemma deque_append_length:
  "length d \<le> m \<Longrightarrow> 0 < m \<Longrightarrow> length (deque_append m d x) = min m (Suc (length d))"
  by (auto simp: deque_append_def Let_def)

lemma deque_append_drop:
  assumes "0 < m"
  shows "deque_append m (drop (length xs - m) xs) x = drop (Suc (length xs) - m) (xs @ [x])"
proof (cases "length xs < m")
  case True
  then show ?thesis by (simp add: deque_append_def Let_def)
next
  case False
  then have len: "length (drop (length xs - m) xs) = m" by simp
  have tl_drop1: "tl ys = drop 1 ys" for ys :: "'a list"
    by (cases ys) simp_all
  have "drop (length xs - m) xs @ [x] = drop (length xs - m) (xs @ [x])"
    using False by simp
  then have "tl (drop (length xs - m) xs @ [x]) = drop 1 (drop (length xs - m) (xs @ [x]))"
    by (simp only: tl_drop1)
  also have "\<dots> = drop (Suc (length xs) - m) (xs @ [x])"
    using False by (simp only: drop_drop) (simp add: Suc_diff_le)
  finally show ?thesis using len assms by (simp add: deque_append_def Let_def)
qed

lemma fold_deque_append:
  "fold (\<lambda>x d. deque_append 60 d x) xs [] = drop (length xs - 60) xs"
proof (induction xs rule: rev_induct)
  case Nil
  then show ?case by simp
next
  case (snoc x xs)
  then show ?case using deque_append_drop [of 60 xs x] by simp
qed

lemma collect_stats_monitoring: "monitoring (collect_stats t io self) = monitoring self"
proof (cases io)
  case (Inl e)
  then show ?thesis by (simp add: collect_stats_def)
next
  case (Inr items)
  have "monitoring (fold (collect_interface t) items self) = monitoring self"
  proof (induction items arbitrary: self)
    case Nil
    then show ?case by simp
  next
    case (Cons item items)
    have "monitoring (collect_interface t item self) = monitoring self"
      by (cases item) (simp add: collect_interface_def Let_def)
    with Cons.IH [of "collect_interface t item self"] show ?case by simp
  qed
  with Inr show ?thesis by (simp add: collect_stats_def)
qed

lemma monitor_loop_stopped: "\<not> monitoring self \<Longrightarrow> monitor_loop ticks self = self"
  by (cases ticks) auto

lemma monitor_loop_monitoring: "monitoring (monitor_loop ticks self) = monitoring self"
proof (induction ticks arbitrary: self)
  case Nil
  then show ?case by simp
next
  case (Cons tick ticks)
  obtain t io where tick: "tick = (t, io)" by (cases tick)
  from Cons.IH [of "collect_stats t io self"] tick show ?case
    by (simp add: collect_stats_monitoring)
qed

lemma monitor_loop_append:
  "monitor_loop (a @ b) self = monitor_loop b (monitor_loop a self)"
proof (induction a arbitrary: self)
  case Nil
  then show ?case by simp
next
  case (Cons tick a)
  obtain t io where tick: "tick = (t, io)" by (cases tick)
  from Cons.IH [of "collect_stats t io self"] tick show ?case
    by (simp add: monitor_loop_stopped)
qed

lemma monitor_loop_snoc:
  "monitoring self \<Longrightarrow>
   monitor_loop (ticks @ [(t, io)]) self = collect_stats t io (monitor_loop ticks self)"
  by (simp add: monitor_loop_append monitor_loop_monitoring)

lemma started_monitor_facts:
  "monitoring started_monitor" "history started_monitor i = []"
  "last_stats started_monitor i = None"
  by (simp_all add: started_monitor_def start_monitoring_def BandwidthMonitor_init_def
      history_def)

lemma collect_interface_bounded:
  assumes "\<forall>i. length (history self i) \<le> 60"
  shows "length (history (collect_interface t item self) i) \<le> 60"
proof (cases item)
  case (Pair name stats)
  show ?thesis
  proof (cases "excluded name \<or> name \<noteq> i")
    case True
    with Pair assms show ?thesis
      by (auto simp: collect_interface_def history_def Let_def)
  next
    case False
    with Pair assms deque_append_length [of "history self i" 60] show ?thesis
      by (simp add: collect_interface_def history_def Let_def)
  qed
qed

lemma fold_collect_bounded:
  "\<forall>i. length (history self i) \<le> 60 \<Longrightarrow>
   \<forall>i. length (history (fold (collect_interface t) items self) i) \<le> 60"
proof (induction items arbitrary: self)
  case Nil
  then show ?case by simp
next
  case (Cons item items)
  from Cons.prems have "\<forall>i. length (history (collect_interface t item self) i) \<le> 60"
    by (simp add: collect_interface_bounded)
  from Cons.IH [OF this] show ?case by simp
qed

lemma collect_stats_bounded:
  "\<forall>i. length (history self i) \<le> 60 \<Longrightarrow>
   \<forall>i. length (history (collect_stats t io self) i) \<le> 60"
  by (cases io) (simp_all add: collect_stats_def fold_collect_bounded)

lemma monitor_loop_bounded:
  "\<forall>i. length (history self i) \<le> 60 \<Longrightarrow>
   \<forall>i. length (history (monitor_loop ticks self) i) \<le> 60"
proof (induction ticks arbitrary: self)
  case Nil
  then show ?case by simp
next
  case (Cons tick ticks)
  obtain t io where tick: "tick = (t, io)" by (cases tick)
  from Cons.IH [OF collect_stats_bounded [OF Cons.prems, of t io]] tick Cons.prems
  show ?case by simp
qed

lemma started_bounded: "\<forall>i. length (history started_monitor i) \<le> 60"
  by (simp add: started_monitor_facts)

lemma start_stop_history:
  "history (fst (start_monitoring new_task self)) = history self"
  "history (fst (stop_monitoring self)) = history self"
  by (auto simp: start_monitoring_def stop_monitoring_def history_def fun_eq_iff)

lemma monitor_loop_fifo:
  assumes "\<not> excluded i"
  shows "(\<forall>tick \<in> set ticks. \<exists>items stats.
            snd tick = Inr items \<and> distinct (map fst items) \<and> (i, stats) \<in> set items) \<Longrightarrow>
     \<exists>samples. length samples = length ticks
       \<and> (\<forall>j < length ticks.
             last_stats (monitor_loop (take (Suc j) ticks) started_monitor) i
               = Some (samples ! j))
       \<and> history (monitor_loop ticks started_monitor) i
           = drop (length ticks - 60) samples"
proof (induction ticks rule: rev_induct)
  case Nil
  then show ?case by (simp add: started_monitor_facts)
next
  case (snoc tick ticks)
  let ?run = "\<lambda>ts. monitor_loop ts started_monitor"
  from snoc.prems obtain items stats where
    tick: "snd tick = Inr items" "distinct (map fst items)" "(i, stats) \<in> set items"
    by auto
  from snoc.prems have "\<forall>tick \<in> set ticks. \<exists>items stats.
            snd tick = Inr items \<and> distinct (map fst items) \<and> (i, stats) \<in> set items"
    by simp
  from snoc.IH [OF this] obtain samples where
    len: "length samples = length ticks"
    and nth: "\<And>j. j < length ticks \<Longrightarrow> last_stats (?run (take (Suc j) ticks)) i = Some (samples ! j)"
    and hist: "history (?run ticks) i = drop (length ticks - 60) samples"
    by blast
  define s where "s = new_sample (fst tick) stats (last_stats (?run ticks) i)"
  have run: "?run (ticks @ [tick]) = collect_stats (fst tick) (Inr items) (?run ticks)"
    using tick(1) monitor_loop_snoc [OF started_monitor_facts(1), of ticks "fst tick" "snd tick"]
    by (cases tick) simp
  have last': "last_stats (?run (ticks @ [tick])) i = Some s"
    unfolding run s_def by (rule collect_stats_interface(2) [OF tick(2,3) assms])
  have "history (?run (ticks @ [tick])) i = deque_append 60 (history (?run ticks) i) s"
    unfolding run s_def by (rule collect_stats_interface(1) [OF tick(2,3) assms])
  also have "\<dots> = drop (Suc (length samples) - 60) (samples @ [s])"
    using deque_append_drop [of 60 samples s] hist len by simp
  finally have hist': "history (?run (ticks @ [tick])) i
      = drop (length (ticks @ [tick]) - 60) (samples @ [s])"
    using len by simp
  have nth': "last_stats (?run (take (Suc j) (ticks @ [tick]))) i = Some ((samples @ [s]) ! j)"
    if "j < length (ticks @ [tick])" for j
  proof (cases "j < length ticks")
    case True
    with nth [of j] len show ?thesis by (simp add: nth_append)
  next
    case False
    with that have "j = length ticks" by simp
    with last' len show ?thesis by (simp add: nth_append)
  qed
  from len hist' nth' show ?case
    by (intro exI [of _ "samples @ [s]"]) simp
qed


text \<open>
  C6. Every history is a bounded queue of capacity 60. After any run of the loop of
  a newly started monitor no history is longer than 60; \<open>_collect_stats\<close> keeps that bound and
  starting or stopping the monitor leaves the histories alone. Appending to a deque of
  \<open>maxlen\<close> 60, starting empty, retains the last 60 elements appended, in order. For an
  interface that is not filtered out and is reported in every tick, the history after the
  run is the list of the samples the ticks produced without its oldest
  \<open>length ticks - 60\<close> elements, so it has \<open>min (length ticks) 60\<close> samples: exactly 60 after
  \<open>60 + k\<close> ticks, the oldest \<open>k\<close> dropped.
\<close>

theorem history_bounded_fifo:
  "(\<forall>i. length (history (monitor_loop ticks started_monitor) i) \<le> 60)
   \<and> ((\<forall>i. length (history self i) \<le> 60) \<longrightarrow>
        (\<forall>i. length (history (collect_stats t io self) i) \<le> 60))
   \<and> history (fst (start_monitoring new_task self)) = history self
   \<and> history (fst (stop_monitoring self)) = history self
   \<and> fold (\<lambda>x d. deque_append 60 d x) xs [] = drop (length xs - 60) xs
   \<and> (\<not> excluded i
        \<and> (\<forall>tick \<in> set ticks. \<exists>items stats.
              snd tick = Inr items \<and> distinct (map fst items) \<and> (i, stats) \<in> set items) \<longrightarrow>
        (\<exists>samples. length samples = length ticks
           \<and> (\<forall>j < length ticks.
                 last_stats (monitor_loop (take (Suc j) ticks) started_monitor) i
                   = Some (samples ! j))
           \<and> history (monitor_loop ticks started_monitor) i
               = drop (length ticks - 60) samples
           \<and> length (history (monitor_loop ticks started_monitor) i)
               = min (length ticks) 60))"
proof -
  have reach: "\<forall>i. length (history (monitor_loop ticks started_monitor) i) \<le> 60"
    by (rule monitor_loop_bounded [OF started_bounded])
  have step: "(\<forall>i. length (history self i) \<le> 60) \<longrightarrow>
        (\<forall>i. length (history (collect_stats t io self) i) \<le> 60)"
    using collect_stats_bounded [of self t io] by blast
  have fifo: "\<exists>samples. length samples = length ticks
           \<and> (\<forall>j < length ticks.
                 last_stats (monitor_loop (take (Suc j) ticks) started_monitor) i
                   = Some (samples ! j))
           \<and> history (monitor_loop ticks started_monitor) i
               = drop (length ticks - 60) samples
           \<and> length (history (monitor_loop ticks started_monitor) i)
               = min (length ticks) 60"
    if "\<not> excluded i" and "\<forall>tick \<in> set ticks. \<exists>items stats.
              snd tick = Inr items \<and> distinct (map fst items) \<and> (i, stats) \<in> set items"
  proof -
    from monitor_loop_fifo [OF that] obtain samples where
      s: "length samples = length ticks"
        "\<forall>j < length ticks.
           last_stats (monitor_loop (take (Suc j) ticks) started_monitor) i
             = Some (samples ! j)"
        "history (monitor_loop ticks started_monitor) i = drop (length ticks - 60) samples"
      by blast
    from s(1,3) have "length (history (monitor_loop ticks started_monitor) i)
        = min (length ticks) 60"
      by simp
    with s show ?thesis by blast
  qed
  from reach step start_stop_history(1) [of new_task self] start_stop_history(2) [of self]
    fold_deque_append [of xs] fifo
  show ?thesis by blast
qed

lemma eth0_ticks_reported:
  "\<forall>tick \<in> set (eth0_ticks n). \<exists>items stats.
      snd tick = Inr items \<and> distinct (map fst items) \<and> (''eth0'', stats) \<in> set items"
  by (auto simp: eth0_ticks_def)

lemma eth0_second_sample:
  "\<exists>s. last_stats (monitor_loop (take (Suc 1) (eth0_ticks 61)) started_monitor) ''eth0''
        = Some s
     \<and> timestamp s = 1 \<and> bytes_sent s = 1000 \<and> send_rate s = 1000"
  by (simp add: eth0_ticks_def take_map collect_stats_def collect_interface_def
      eth0_not_excluded new_sample_def Let_def started_monitor_def start_monitoring_def
      BandwidthMonitor_init_def)

theorem history_bounded_fifo_witness:
  "length (eth0_ticks 61) = 60 + 1
   \<and> length (history (monitor_loop (eth0_ticks 61) started_monitor) ''eth0'') = 60
   \<and> timestamp (hd (history (monitor_loop (eth0_ticks 61) started_monitor) ''eth0'')) = 1"
proof -
  let ?h = "history (monitor_loop (eth0_ticks 61) started_monitor) ''eth0''"
  have len: "length (eth0_ticks 61) = 61" by (simp add: eth0_ticks_def)
  from history_bounded_fifo [where ticks = "eth0_ticks 61" and i = "''eth0''"
      and self = BandwidthMonitor_init and t = 0 and io = "Inr []" and new_task = 0
      and xs = "[] :: nat list"]
    eth0_not_excluded eth0_ticks_reported [of 61]
  obtain samples where s: "length samples = 61"
    "\<forall>j < 61. last_stats (monitor_loop (take (Suc j) (eth0_ticks 61)) started_monitor)
        ''eth0'' = Some (samples ! j)"
    "?h = drop 1 samples" "length ?h = 60"
    unfolding len by auto
  from s(2) have "last_stats (monitor_loop (take (Suc 1) (eth0_ticks 61)) started_monitor)
        ''eth0'' = Some (samples ! 1)"
    by simp
  with eth0_second_sample have "timestamp (samples ! 1) = 1"
    by auto
  moreover from s(1,3) have "hd ?h = samples ! 1"
    by (simp add: hd_drop_conv_nth)
  ultimately show ?thesis using len s(4) by simp
qed

text \<open>An interface filtered out by its prefix gets no sample.\<close>

lemma collect_interface_excluded:
  "excluded i \<Longrightarrow>
   interface_stats (collect_interface t item self) i = interface_stats self i
   \<and> last_stats (collect_interface t item self) i = last_stats self i"
  by (cases item) (auto simp: collect_interface_def Let_def)

lemma collect_stats_excluded:
  assumes "excluded i"
  shows "history (collect_stats t io self) i = history self i
     \<and> last_stats (collect_stats t io self) i = last_stats self i"
proof (cases io)
  case (Inl e)
  then show ?thesis by (simp add: collect_stats_def)
next
  case (Inr items)
  have "interface_stats (fold (collect_interface t) items self) i = interface_stats self i
     \<and> last_stats (fold (collect_interface t) items self) i = last_stats self i"
  proof (induction items arbitrary: self)
    case Nil
    then show ?case by simp
  next
    case (Cons item items)
    from Cons.IH [of "collect_interface t item self"]
      collect_interface_excluded [OF assms, of t item self]
    show ?case by simp
  qed
  with Inr show ?thesis by (simp add: collect_stats_def history_def)
qed

section \<open>Properties of the cached query endpoint\<close>

lemma query_hit_refresh_raises:
  assumes "get_map cache s (''hyperglass.query.'' @ digest data) ''output'' = Inr v" "truthy v"
    and "expire cache s (''hyperglass.query.'' @ digest data) (cache_timeout env) = Inl e"
  shows "query cache env data s =
     (Inl e, s, [Info ''Starting query execution'', Debug ''Cache hit''])"
  using assms by (simp add: query_def Let_def)

lemma query_hit_refresh_ok:
  assumes "get_map cache s (''hyperglass.query.'' @ digest data) ''output'' = Inr v" "truthy v"
    and "expire cache s (''hyperglass.query.'' @ digest data) (cache_timeout env) = Inr s1"
    and "get_map cache s1 (''hyperglass.query.'' @ digest data) ''timestamp'' = Inr ts"
    and "get_map cache s1 (''hyperglass.query.'' @ digest data) ''output'' = Inr v'"
  shows "query cache env data s =
     (Inr \<lparr>r_output = v', r_id = ''hyperglass.query.'' @ digest data, r_cached = True,
           r_runtime = 0, r_timestamp = ts,
           r_format = (if is_dict v' then ''application/json'' else ''text/plain''),
           r_random = data_random data, r_level = ''success'', r_keywords = []\<rparr>,
      s1,
      [Info ''Starting query execution'', Debug ''Cache hit'', Info ''Execution completed''])"
  using assms by (simp add: query_def respond_def Let_def)

text \<open>
  C1 (as amended). On a cache hit, that is when the first read of the output field returns
  a value that counts as true, \<open>query\<close> calls \<open>expire\<close> with no handler around it. When
  \<open>expire\<close> raises, that exception leaves \<open>query\<close>: the request fails, the store is as it
  was, and the log holds the two lines written before the call and nothing about the
  failure. When \<open>expire\<close> returns and the two reads after it return, the entry is served with
  \<open>cached = True\<close>, run time 0 and the stored time stamp.
\<close>

theorem query_hit_refresh:
  assumes "get_map cache s (''hyperglass.query.'' @ digest data) ''output'' = Inr v"
    and "truthy v"
  shows "(\<forall>e. expire cache s (''hyperglass.query.'' @ digest data) (cache_timeout env) = Inl e \<longrightarrow>
            query cache env data s =
              (Inl e, s, [Info ''Starting query execution'', Debug ''Cache hit'']))
     \<and> (\<forall>s1 ts v'.
            expire cache s (''hyperglass.query.'' @ digest data) (cache_timeout env) = Inr s1
            \<and> get_map cache s1 (''hyperglass.query.'' @ digest data) ''timestamp'' = Inr ts
            \<and> get_map cache s1 (''hyperglass.query.'' @ digest data) ''output'' = Inr v' \<longrightarrow>
            query cache env data s =
              (Inr \<lparr>r_output = v', r_id = ''hyperglass.query.'' @ digest data, r_cached = True,
                    r_runtime = 0, r_timestamp = ts,
                    r_format = (if is_dict v' then ''application/json'' else ''text/plain''),
                    r_random = data_random data, r_level = ''success'', r_keywords = []\<rparr>,
               s1,
               [Info ''Starting query execution'', Debug ''Cache hit'',
                Info ''Execution completed'']))"
  using query_hit_refresh_raises [OF assms] query_hit_refresh_ok [OF assms] by blast

lemma example_hit:
  "get_field example_store (''hyperglass.query.'' @ digest example_data) ''output''
     = PyStr ''BGP routing table entry for 192.0.2.0/24''"
  by (simp add: get_field_def example_store_def example_data_def)

theorem query_hit_refresh_witness:
  "query spec_store example_env example_data example_store =
     (Inr \<lparr>r_output = PyStr ''BGP routing table entry for 192.0.2.0/24'',
           r_id = ''hyperglass.query.3f2a'', r_cached = True, r_runtime = 0,
           r_timestamp = PyDatetime 1700000000, r_format = ''text/plain'',
           r_random = ''x1'', r_level = ''success'', r_keywords = []\<rparr>,
      store_expire example_store ''hyperglass.query.3f2a'' 120,
      [Info ''Starting query execution'', Debug ''Cache hit'', Info ''Execution completed''])
   \<and> query refresh_failing_store example_env example_data example_store =
     (Inl (OtherException ''Connection reset by peer''), example_store,
      [Info ''Starting query execution'', Debug ''Cache hit''])"
  using query_hit_refresh [of spec_store example_store example_data
      "PyStr ''BGP routing table entry for 192.0.2.0/24''" example_env]
    query_hit_refresh [of refresh_failing_store example_store example_data
      "PyStr ''BGP routing table entry for 192.0.2.0/24''" example_env]
  by (simp add: spec_store_def refresh_failing_store_def example_hit)
    (simp add: example_data_def example_env_def get_field_def store_expire_def example_store_def)

text \<open>
  The claim C1 as stated fails: with a cached output in the store and a store whose
  \<open>expire\<close> raises, the lookup returns the cached output and still \<open>query\<close> returns no
  response. Its result is the exception of the refresh, and the log ends with the line
  written before the refresh.
\<close>

theorem query_hit_refresh_failure_is_fatal:
  "get_map refresh_failing_store example_store ''hyperglass.query.3f2a'' ''output''
     = Inr (PyStr ''BGP routing table entry for 192.0.2.0/24'')
   \<and> expire refresh_failing_store example_store ''hyperglass.query.3f2a'' 120
     = Inl (OtherException ''Connection reset by peer'')
   \<and> query refresh_failing_store example_env example_data example_store =
     (Inl (OtherException ''Connection reset by peer''), example_store,
      [Info ''Starting query execution'', Debug ''Cache hit''])"
  by (simp add: query_def Let_def refresh_failing_store_def spec_store_def get_field_def
      example_store_def example_data_def example_env_def)

lemma store_round_trip:
  "get_field (store_expire (set_field (set_field s k ''output'' v) k ''timestamp'' ts) k t)
      k ''output'' = v"
  "get_field (store_expire (set_field (set_field s k ''output'' v) k ''timestamp'' ts) k t)
      k ''timestamp'' = ts"
  "ttl (store_expire (set_field (set_field s k ''output'' v) k ''timestamp'' ts) k t) k = Some t"
  by (simp_all add: get_field_def set_field_def store_expire_def)

lemma query_miss_spec_store:
  assumes "\<not> truthy (get_field s (''hyperglass.query.'' @ digest data) ''output'')"
    and "(if fake_output_enabled env then fake_output env else execute env) = Inr (Some out)"
    and "raw_output env out = Inr v"
  shows "query spec_store env data s =
     (Inr \<lparr>r_output = v, r_id = ''hyperglass.query.'' @ digest data, r_cached = False,
           r_runtime = elapsed_seconds env, r_timestamp = PyDatetime (data_timestamp data),
           r_format = (if is_dict v then ''application/json'' else ''text/plain''),
           r_random = data_random data, r_level = ''success'', r_keywords = []\<rparr>,
      store_expire
        (set_field (set_field s (''hyperglass.query.'' @ digest data) ''output'' v)
           (''hyperglass.query.'' @ digest data) ''timestamp'' (PyDatetime (data_timestamp data)))
        (''hyperglass.query.'' @ digest data) (cache_timeout env),
      [Info ''Starting query execution'', Debug ''Cache miss'',
       Debug ''Runtime: {!s} seconds'', Debug ''Response cached'',
       Info ''Execution completed''])"
proof -
  have read: "get_map spec_store s (''hyperglass.query.'' @ digest data) ''output''
      = Inr (get_field s (''hyperglass.query.'' @ digest data) ''output'')"
    by (simp add: spec_store_def)
  show ?thesis
    unfolding query_def Let_def read
    using assms
    by (simp add: spec_store_def respond_def store_round_trip)
qed

lemma query_hit_spec_store:
  assumes "get_field s (''hyperglass.query.'' @ digest data) ''output'' = v" "truthy v"
  shows "query spec_store env data s =
     (Inr \<lparr>r_output = v, r_id = ''hyperglass.query.'' @ digest data, r_cached = True,
           r_runtime = 0,
           r_timestamp = get_field s (''hyperglass.query.'' @ digest data) ''timestamp'',
           r_format = (if is_dict v then ''application/json'' else ''text/plain''),
           r_random = data_random data, r_level = ''success'', r_keywords = []\<rparr>,
      store_expire s (''hyperglass.query.'' @ digest data) (cache_timeout env),
      [Info ''Starting query execution'', Debug ''Cache hit'', Info ''Execution completed''])"
proof -
  have same: "get_field (store_expire s k t) k' f = get_field s k' f" for k t k' f
    by (simp add: get_field_def store_expire_def)
  let ?key = "''hyperglass.query.'' @ digest data"
  show ?thesis
  proof (rule query_hit_refresh_ok [where v = v and v' = v])
    show "get_map spec_store s ?key ''output'' = Inr v"
      using assms(1) by (simp add: spec_store_def)
    show "truthy v" by fact
    show "expire spec_store s ?key (cache_timeout env)
        = Inr (store_expire s ?key (cache_timeout env))"
      by (simp add: spec_store_def)
    show "get_map spec_store (store_expire s ?key (cache_timeout env)) ?key ''timestamp''
        = Inr (get_field s ?key ''timestamp'')"
      by (simp add: spec_store_def same)
    show "get_map spec_store (store_expire s ?key (cache_timeout env)) ?key ''output'' = Inr v"
      using assms(1) by (simp add: spec_store_def same)
  qed
qed

text \<open>
  C7. On the store modelled from the specification, writing output \<open>v\<close> and time stamp
  \<open>ts\<close> under key \<open>k\<close>, setting the expiry, and then reading both fields returns \<open>v\<close> and
  \<open>ts\<close>, for every store, key, value, time stamp and time to live. For \<open>query\<close> on a miss
  whose execution returns an output: the value written is \<open>raw_output\<close> of it (for a
  structured output the document that \<open>json.loads\<close> gives for its exported JSON), the
  response carries that value as read back from the store and the request's time stamp,
  and the store afterwards holds both under the cache key. A later request with the same
  digest, when the value counts as true, is answered from the cache with the same output
  and the time stamp of the original execution.
\<close>

theorem cache_round_trip:
  "get_field (store_expire (set_field (set_field s k ''output'' v) k ''timestamp'' ts) k t)
      k ''output'' = v
   \<and> get_field (store_expire (set_field (set_field s k ''output'' v) k ''timestamp'' ts) k t)
      k ''timestamp'' = ts
   \<and> (\<not> truthy (get_field s (''hyperglass.query.'' @ digest data) ''output'')
        \<and> (if fake_output_enabled env then fake_output env else execute env) = Inr (Some out)
        \<and> raw_output env out = Inr raw \<longrightarrow>
        (\<exists>response s' logged.
            query spec_store env data s = (Inr response, s', logged)
            \<and> r_output response = raw
            \<and> r_timestamp response = PyDatetime (data_timestamp data)
            \<and> r_cached response = False
            \<and> get_field s' (''hyperglass.query.'' @ digest data) ''output'' = raw
            \<and> get_field s' (''hyperglass.query.'' @ digest data) ''timestamp''
                = PyDatetime (data_timestamp data)
            \<and> ttl s' (''hyperglass.query.'' @ digest data) = Some (cache_timeout env)
            \<and> (truthy raw \<longrightarrow>
                 (\<forall>env' data'. digest data' = digest data \<longrightarrow>
                    (\<exists>response' s'' logged'.
                       query spec_store env' data' s' = (Inr response', s'', logged')
                       \<and> r_cached response' = True
                       \<and> r_output response' = raw
                       \<and> r_timestamp response' = PyDatetime (data_timestamp data))))))"
proof (intro conjI impI)
  assume a: "\<not> truthy (get_field s (''hyperglass.query.'' @ digest data) ''output'')
        \<and> (if fake_output_enabled env then fake_output env else execute env) = Inr (Some out)
        \<and> raw_output env out = Inr raw"
  let ?key = "''hyperglass.query.'' @ digest data"
  let ?s' = "store_expire
        (set_field (set_field s ?key ''output'' raw) ?key ''timestamp''
           (PyDatetime (data_timestamp data)))
        ?key (cache_timeout env)"
  from a have miss: "\<not> truthy (get_field s ?key ''output'')"
    and exec: "(if fake_output_enabled env then fake_output env else execute env) = Inr (Some out)"
    and raw: "raw_output env out = Inr raw"
    by blast+
  note q = query_miss_spec_store [OF miss exec raw]
  have again: "\<exists>response' s'' logged'.
       query spec_store env' data' ?s' = (Inr response', s'', logged')
       \<and> r_cached response' = True
       \<and> r_output response' = raw
       \<and> r_timestamp response' = PyDatetime (data_timestamp data)"
    if "truthy raw" and "digest data' = digest data" for env' data'
  proof -
    have "get_field ?s' (''hyperglass.query.'' @ digest data') ''output'' = raw"
      using that(2) by (simp add: store_round_trip)
    from query_hit_spec_store [OF this that(1), of env'] that(2)
    show ?thesis by (simp add: store_round_trip)
  qed
  show "\<exists>response s' logged.
            query spec_store env data s = (Inr response, s', logged)
            \<and> r_output response = raw
            \<and> r_timestamp response = PyDatetime (data_timestamp data)
            \<and> r_cached response = False
            \<and> get_field s' ?key ''output'' = raw
            \<and> get_field s' ?key ''timestamp'' = PyDatetime (data_timestamp data)
            \<and> ttl s' ?key = Some (cache_timeout env)
            \<and> (truthy raw \<longrightarrow>
                 (\<forall>env' data'. digest data' = digest data \<longrightarrow>
                    (\<exists>response' s'' logged'.
                       query spec_store env' data' s' = (Inr response', s'', logged')
                       \<and> r_cached response' = True
                       \<and> r_output response' = raw
                       \<and> r_timestamp response' = PyDatetime (data_timestamp data))))"
    unfolding q using again by (simp add: store_round_trip)
qed (simp_all add: store_round_trip)

theorem cache_round_trip_witness:
  "\<exists>response s' logged.
      query spec_store example_env example_data empty_store = (Inr response, s', logged)
      \<and> r_output response = PyStr ''BGP routing table entry for 192.0.2.0/24''
      \<and> r_timestamp response = PyDatetime 1700000500
      \<and> r_cached response = False
      \<and> get_field s' ''hyperglass.query.3f2a'' ''output''
          = PyStr ''BGP routing table entry for 192.0.2.0/24''
      \<and> get_field s' ''hyperglass.query.3f2a'' ''timestamp'' = PyDatetime 1700000500
      \<and> ttl s' ''hyperglass.query.3f2a'' = Some 120"
proof -
  have miss: "\<not> truthy (get_field empty_store (''hyperglass.query.'' @ digest example_data)
      ''output'')"
    by (simp add: empty_store_def get_field_def)
  have exec: "(if fake_output_enabled example_env then fake_output example_env
      else execute example_env)
      = Inr (Some (OtherOutput ''BGP routing table entry for 192.0.2.0/24''))"
    by (simp add: example_env_def)
  have raw: "raw_output example_env (OtherOutput ''BGP routing table entry for 192.0.2.0/24'')
      = Inr (PyStr ''BGP routing table entry for 192.0.2.0/24'')"
    by (simp add: raw_output_def)
  from cache_round_trip [of empty_store "''k''" PyNone PyNone 0 example_data example_env
      "OtherOutput ''BGP routing table entry for 192.0.2.0/24''"
      "PyStr ''BGP routing table entry for 192.0.2.0/24''",
      THEN conjunct2, THEN conjunct2, THEN mp, OF conjI [OF miss conjI [OF exec raw]]]
  obtain response s' logged where
    "query spec_store example_env example_data empty_store = (Inr response, s', logged)"
    "r_output response = PyStr ''BGP routing table entry for 192.0.2.0/24''"
    "r_timestamp response = PyDatetime (data_timestamp example_data)"
    "r_cached response = False"
    "get_field s' (''hyperglass.query.'' @ digest example_data) ''output''
       = PyStr ''BGP routing table entry for 192.0.2.0/24''"
    "get_field s' (''hyperglass.query.'' @ digest example_data) ''timestamp''
       = PyDatetime (data_timestamp example_data)"
    "ttl s' (''hyperglass.query.'' @ digest example_data) = Some (cache_timeout example_env)"
    by blast
  then show ?thesis
    by (intro exI [of _ response] exI [of _ s'] exI [of _ logged])
      (simp add: example_data_def example_env_def)
qed

section \<open>Properties of the configuration validator\<close>

lemma validate_als_config_no_section:
  "config_data ''als_features'' = None \<Longrightarrow>
   validate_als_config ALSFeatures_init config_data = (True, [])"
  by (simp add: validate_als_config_def validate_als_config_try_def)

lemma validate_als_config_falsy_section:
  "config_data ''als_features'' = Some als_config \<Longrightarrow> \<not> truthy als_config \<Longrightarrow>
   validate_als_config ALSFeatures_init config_data = (True, [])"
  by (simp add: validate_als_config_def validate_als_config_try_def)

lemma validate_als_config_init_raises:
  "config_data ''als_features'' = Some als_config \<Longrightarrow> truthy als_config \<Longrightarrow>
   ALSFeatures_init als_config = Inl e \<Longrightarrow>
   validate_als_config ALSFeatures_init config_data
     = (False, [''ALS configuration validation error: '' @ exn_str e])"
  by (simp add: validate_als_config_def validate_als_config_try_def)

lemma validate_als_config_checked:
  "config_data ''als_features'' = Some als_config \<Longrightarrow> truthy als_config \<Longrightarrow>
   ALSFeatures_init als_config = Inr features \<Longrightarrow>
   validate_als_config ALSFeatures_init config_data
     = (validate_speedtest_config (speedtest features)
          @ validate_network_tools_config (network_tools features)
          @ validate_bandwidth_config (bandwidth features) = [],
        validate_speedtest_config (speedtest features)
          @ validate_network_tools_config (network_tools features)
          @ validate_bandwidth_config (bandwidth features))"
  by (simp add: validate_als_config_def validate_als_config_try_def Let_def)

lemma validate_als_config_valid_iff:
  "fst (validate_als_config ALSFeatures_init config_data)
     = (snd (validate_als_config ALSFeatures_init config_data) = [])"
proof (cases "config_data ''als_features''")
  case None
  then show ?thesis by (simp add: validate_als_config_no_section)
next
  case (Some als_config)
  show ?thesis
  proof (cases "truthy als_config")
    case False
    with Some show ?thesis by (simp add: validate_als_config_falsy_section)
  next
    case True
    show ?thesis
    proof (cases "ALSFeatures_init als_config")
      case (Inl e)
      with Some True show ?thesis by (simp add: validate_als_config_init_raises)
    next
      case (Inr features)
      with Some True show ?thesis by (simp add: validate_als_config_checked)
    qed
  qed
qed

text \<open>
  C9. \<open>validate_als_config\<close> returns a pair whose first component is \<open>True\<close> exactly
  when its error list is empty, whatever the configuration dictionary holds and whatever
  the construction of the pydantic model does. Without an \<open>als_features\<close> section it returns
  \<open>(True, [])\<close>. An exception of the construction does not leave the function: it is turned
  into the one error message of an invalid result.
\<close>

theorem validate_als_config_result:
  "fst (validate_als_config ALSFeatures_init config_data)
     = (snd (validate_als_config ALSFeatures_init config_data) = [])
   \<and> (config_data ''als_features'' = None \<longrightarrow>
        validate_als_config ALSFeatures_init config_data = (True, []))
   \<and> (\<forall>als_config e.
        config_data ''als_features'' = Some als_config \<and> truthy als_config
        \<and> ALSFeatures_init als_config = Inl e \<longrightarrow>
        validate_als_config ALSFeatures_init config_data
          = (False, [''ALS configuration validation error: '' @ exn_str e]))"
  using validate_als_config_valid_iff [of ALSFeatures_init config_data]
    validate_als_config_no_section [of config_data ALSFeatures_init]
    validate_als_config_init_raises [of config_data _ ALSFeatures_init]
  by blast

theorem validate_als_config_result_witness:
  "validate_als_config init_refusing Map.empty = (True, [])
   \<and> validate_als_config init_refusing
        [''als_features'' \<mapsto> PyDict [(''speedtest'', PyDict [(''file_sizes'', PyList [PyStr ''1XB''])])]]
       = (False, [''ALS configuration validation error: Invalid file size format: 1XB''])"
  using validate_als_config_result [of init_refusing Map.empty]
    validate_als_config_result [of init_refusing
      "[''als_features'' \<mapsto> PyDict [(''speedtest'', PyDict [(''file_sizes'', PyList [PyStr ''1XB''])])]]"]
  by (simp add: init_refusing_def)

text \<open>The defaults of the model classes pass the validator.\<close>

lemma check_file_size_defaults:
  "check_file_size ''1MB'' = []" "check_file_size ''10MB'' = []"
  "check_file_size ''100MB'' = []" "check_file_size ''1GB'' = []"
  by (simp_all add: check_file_size_def valid_units_def endswith_def drop_last_def
      py_int_def py_strip_def is_space_def is_digit_def digit_val_def)

lemma validate_als_config_defaults:
  "validate_als_config init_defaults [''als_features'' \<mapsto> PyDict [(''enabled'', PyBool True)]]
     = (True, [])"
  by (simp add: validate_als_config_def validate_als_config_try_def init_defaults_def
      default_features_def validate_speedtest_config_def validate_network_tools_config_def
      validate_bandwidth_config_def check_file_size_defaults)

section \<open>Properties of the file download endpoint\<close>











lemma chunks_generate_file_data:
  "\<forall>chunk \<in> set (generate_file_data total_bytes sent). 0 < length chunk \<and> length chunk \<le> 64 * 1024"
proof (induction total_bytes sent rule: generate_file_data.induct)
  case (1 total_bytes sent)
  show ?case
  proof (cases "sent < total_bytes")
    case False
    then show ?thesis by (simp add: generate_file_data.simps [of total_bytes sent])
  next
    case True
    with "1.IH" [OF True refl refl] show ?thesis
      by (simp add: generate_file_data.simps [of total_bytes sent] Let_def)
  qed
qed




















end
